theory Spec2Isabelle
  imports Complex_Main
begin

section \<open>The PLONK prover of \<open>prover.py\<close>\<close>

text \<open>
  The scalar field is a type parameter \<open>'a :: field\<close>: \<open>Scalar\<close> lives in \<open>utils\<close>,
  which \<open>prover.py\<close> only imports. Python integers are \<open>int\<close>, and \<open>Scalar(k)\<close> for
  an integer \<open>k\<close> is \<open>of_int k\<close>. Group elements are a type parameter \<open>'g\<close>.
\<close>

subsection \<open>Errors\<close>

text \<open>
  Every way in which \<open>prove\<close> can stop without a proof. An \<open>assert\<close> of \<open>prover.py\<close>
  carries the line it stands on; \<open>BasisError\<close> is the rejection of an operation by the
  polynomial class; \<open>ArithmeticError\<close> is division by zero in the field.
\<close>

datatype error =
    KeyError
  | IndexError
  | AttributeError
  | TypeError
  | BasisError
  | ArithmeticError
  | AssertionError nat

subsection \<open>Roots of unity\<close>

text \<open>
  Modelled from the spec: \<open>Scalar.roots_of_unity\<close> is missing from the sources. The
  spec gives \<open>roots_of_unity(n) = [w^0, ..., w^(n-1)]\<close> with \<open>w = root_of_unity(n)\<close> a
  primitive \<open>n\<close>-th root of unity; the root itself is a parameter here.
\<close>

definition roots_of_unity :: "'a::field \<Rightarrow> nat \<Rightarrow> 'a list" where
  "roots_of_unity w n = map (\<lambda>i. w ^ i) [0..<n]"

definition primitive_root :: "nat \<Rightarrow> 'a::field \<Rightarrow> bool" where
  "primitive_root n w \<longleftrightarrow> w ^ n = 1 \<and> (\<forall>k\<in>{1..<n}. w ^ k \<noteq> 1)"

subsection \<open>The vanishing polynomial on the coset (\<open>round_3\<close>, lines 236-238)\<close>

text \<open>
  \<^verbatim>\<open>
  self.Z_H = []
  for r in self.roots_of_unity:
      self.Z_H.append((Scalar(r) * self.fft_cofactor) ** self.group_order - 1)
  \<close>
\<close>

definition Z_H_values :: "'a::field list \<Rightarrow> 'a \<Rightarrow> nat \<Rightarrow> 'a list" where
  "Z_H_values rs fft_cofactor group_order =
     map (\<lambda>r. (r * fft_cofactor) ^ group_order - 1) rs"


type_synonym 'x res = "error + 'x"

definition bind :: "'x res \<Rightarrow> ('x \<Rightarrow> 'y res) \<Rightarrow> 'y res" where
  "bind m f = (case m of Inl e \<Rightarrow> Inl e | Inr x \<Rightarrow> f x)"

definition assert :: "nat \<Rightarrow> bool \<Rightarrow> unit res" where
  "assert line c = (if c then Inr () else Inl (AssertionError line))"

definition index :: "'x list \<Rightarrow> nat \<Rightarrow> 'x res" where
  "index xs i = (if i < length xs then Inr (xs ! i) else Inl IndexError)"

subsection \<open>Polynomials and Python values\<close>

datatype basis = MONOMIAL | LAGRANGE | COSET_EXT_LAGRANGE

record 'a polynomial =
  poly_values :: "'a list"
  basis :: basis

definition Polynomial :: "'a list \<Rightarrow> basis \<Rightarrow> 'a polynomial" where
  "Polynomial vs b = \<lparr>poly_values = vs, basis = b\<rparr>"

text \<open>
  The values the prover computes with and stores on itself: a scalar, a polynomial, a
  list of scalars, or a commitment.
\<close>

datatype ('a, 'g) pyval =
    Sc 'a
  | Po "'a polynomial"
  | Li "'a list"
  | Pt 'g

text \<open>
  Modelled from the spec: the arithmetic of the \<open>Polynomial\<close> class (module \<open>poly\<close>) and
  of \<open>Scalar\<close> (module \<open>utils\<close>) is missing from the sources. Per the spec, arithmetic
  between two polynomials is elementwise and permitted only between polynomials of the
  same basis and size; a bare scalar on either side promotes to a constant polynomial
  of the other operand's basis and size; division is pointwise and a zero divisor is an
  arithmetic error.
\<close>

definition const_poly :: "'a::field polynomial \<Rightarrow> 'a \<Rightarrow> 'a polynomial" where
  "const_poly p s =
     (if basis p = MONOMIAL
      then Polynomial (take (length (poly_values p)) (s # replicate (length (poly_values p) - 1) 0)) MONOMIAL
      else Polynomial (replicate (length (poly_values p)) s) (basis p))"

definition poly_op ::
  "('a \<Rightarrow> 'a \<Rightarrow> 'a) \<Rightarrow> 'a polynomial \<Rightarrow> 'a polynomial \<Rightarrow> ('a, 'g) pyval res" where
  "poly_op f p q =
     (if basis p = basis q \<and> length (poly_values p) = length (poly_values q)
      then Inr (Po (Polynomial (map2 f (poly_values p) (poly_values q)) (basis p)))
      else Inl BasisError)"

definition poly_div :: "'a::field polynomial \<Rightarrow> 'a polynomial \<Rightarrow> ('a, 'g) pyval res" where
  "poly_div p q =
     (if basis p = basis q \<and> length (poly_values p) = length (poly_values q)
      then (if 0 \<in> set (poly_values q) then Inl ArithmeticError
            else Inr (Po (Polynomial (map2 (/) (poly_values p) (poly_values q)) (basis p))))
      else Inl BasisError)"

fun arith ::
  "('a::field \<Rightarrow> 'a \<Rightarrow> 'a) \<Rightarrow> ('a, 'g) pyval \<Rightarrow> ('a, 'g) pyval \<Rightarrow> ('a, 'g) pyval res" where
  "arith f (Sc a) (Sc b) = Inr (Sc (f a b))"
| "arith f (Po p) (Po q) = poly_op f p q"
| "arith f (Po p) (Sc b) = poly_op f p (const_poly p b)"
| "arith f (Sc a) (Po q) = poly_op f (const_poly q a) q"
| "arith f _ _ = Inl TypeError"

fun divide_val :: "('a::field, 'g) pyval \<Rightarrow> ('a, 'g) pyval \<Rightarrow> ('a, 'g) pyval res" where
  "divide_val (Sc a) (Sc b) = (if b = 0 then Inl ArithmeticError else Inr (Sc (a / b)))"
| "divide_val (Po p) (Po q) = poly_div p q"
| "divide_val (Po p) (Sc b) = poly_div p (const_poly p b)"
| "divide_val (Sc a) (Po q) = poly_div (const_poly q a) q"
| "divide_val _ _ = Inl TypeError"

text \<open>
  The four operators on already evaluated operands, and on operand expressions: Python
  evaluates the left operand, then the right one, then applies the operator.
\<close>

definition lift2 ::
  "('v \<Rightarrow> 'v \<Rightarrow> 'v res) \<Rightarrow> 'v res \<Rightarrow> 'v res \<Rightarrow> 'v res" where
  "lift2 f x y = bind x (\<lambda>a. bind y (\<lambda>b. f a b))"

definition py_add :: "('a::field, 'g) pyval res \<Rightarrow> ('a, 'g) pyval res \<Rightarrow> ('a, 'g) pyval res" where
  "py_add = lift2 (arith (+))"

definition py_sub :: "('a::field, 'g) pyval res \<Rightarrow> ('a, 'g) pyval res \<Rightarrow> ('a, 'g) pyval res" where
  "py_sub = lift2 (arith (-))"

definition py_mul :: "('a::field, 'g) pyval res \<Rightarrow> ('a, 'g) pyval res \<Rightarrow> ('a, 'g) pyval res" where
  "py_mul = lift2 (arith (*))"

definition py_div :: "('a::field, 'g) pyval res \<Rightarrow> ('a, 'g) pyval res \<Rightarrow> ('a, 'g) pyval res" where
  "py_div = lift2 divide_val"

subsection \<open>The prover object\<close>

text \<open>
  The fields set by \<open>__init__\<close>, which \<open>prove\<close> only reads, together with the
  collaborators the sources import: \<open>Setup.commit\<close>, \<open>Scalar.root_of_unity\<close>, the
  \<open>Transcript\<close> (an object of state \<open>'t\<close>, each \<open>round_k\<close> absorbing a message and
  returning challenges), and the basis tag that \<open>to_coset_extended_lagrange\<close> gives
  its result.
\<close>

record gate_wires =
  wire_L :: "string option"
  wire_R :: "string option"
  wire_O :: "string option"

datatype 'g message1 = Message1 (a_1: 'g) (b_1: 'g) (c_1: 'g)
datatype 'g message2 = Message2 (z_1: 'g)
datatype 'g message3 = Message3 (t_lo_1: 'g) (t_mid_1: 'g) (t_hi_1: 'g)
datatype 'a message4 =
  Message4 (a_eval: 'a) (b_eval: 'a) (c_eval: 'a) (s1_eval: 'a) (s2_eval: 'a) (z_shifted_eval: 'a)
datatype 'g message5 = Message5 (W_z_1: 'g) (W_zw_1: 'g)

record ('a, 'g) Proof =
  msg_1 :: "'g message1"
  msg_2 :: "'g message2"
  msg_3 :: "'g message3"
  msg_4 :: "'a message4"
  msg_5 :: "'g message5"

record ('a, 'g, 't) prover =
  group_order :: nat
  commit :: "'a polynomial \<Rightarrow> 'g"
  wires :: "gate_wires list"
  get_public_assignments :: "string option list"
  QL :: "'a polynomial"
  QR :: "'a polynomial"
  QM :: "'a polynomial"
  QO :: "'a polynomial"
  QC :: "'a polynomial"
  S1 :: "'a polynomial"
  S2 :: "'a polynomial"
  S3 :: "'a polynomial"
  root_of_unity :: "nat \<Rightarrow> 'a"
  coset_basis :: basis
  Transcript :: "string \<Rightarrow> 't"
  transcript_round_1 :: "'t \<Rightarrow> 'g message1 \<Rightarrow> ('a \<times> 'a) \<times> 't"
  transcript_round_2 :: "'t \<Rightarrow> 'g message2 \<Rightarrow> ('a \<times> 'a) \<times> 't"
  transcript_round_3 :: "'t \<Rightarrow> 'g message3 \<Rightarrow> 'a \<times> 't"
  transcript_round_4 :: "'t \<Rightarrow> 'a message4 \<Rightarrow> 'a \<times> 't"

text \<open>
  The attributes \<open>prove\<close> and the rounds assign on \<open>self\<close>: the object's dictionary, from
  attribute name to value. Reading an attribute that was never assigned raises.
\<close>

type_synonym ('a, 'g) store = "string \<Rightarrow> ('a, 'g) pyval option"

definition attr :: "('a, 'g) store \<Rightarrow> string \<Rightarrow> ('a, 'g) pyval res" where
  "attr st name = (case st name of None \<Rightarrow> Inl AttributeError | Some v \<Rightarrow> Inr v)"

definition attr_values :: "('a, 'g) store \<Rightarrow> string \<Rightarrow> 'a list res" where
  "attr_values st name =
     bind (attr st name) (\<lambda>v. case v of Po p \<Rightarrow> Inr (poly_values p) | _ \<Rightarrow> Inl AttributeError)"

definition attr_poly :: "('a, 'g) store \<Rightarrow> string \<Rightarrow> 'a polynomial res" where
  "attr_poly st name =
     bind (attr st name) (\<lambda>v. case v of Po p \<Rightarrow> Inr p | _ \<Rightarrow> Inl AttributeError)"

definition attr_scalar :: "('a, 'g) store \<Rightarrow> string \<Rightarrow> 'a res" where
  "attr_scalar st name =
     bind (attr st name) (\<lambda>v. case v of Sc x \<Rightarrow> Inr x | _ \<Rightarrow> Inl TypeError)"

type_synonym witness = "string option \<Rightarrow> int option"

definition lookup :: "witness \<Rightarrow> string option \<Rightarrow> int res" where
  "lookup witness k = (case witness k of None \<Rightarrow> Inl KeyError | Some v \<Rightarrow> Inr v)"

subsection \<open>Basis conversions and evaluation\<close>

text \<open>
  Modelled from the spec: \<open>fft\<close>, \<open>ifft\<close>, \<open>shift\<close>, \<open>barycentric_eval\<close>,
  \<open>to_coset_extended_lagrange\<close> and \<open>coset_extended_lagrange_to_coeffs\<close> are methods of
  the missing \<open>Polynomial\<close> class. Per the spec \<open>fft\<close> and \<open>ifft\<close> convert between the
  monomial coefficients and the values at the roots of unity of the polynomial's size:
  the discrete Fourier transform at \<open>w = root_of_unity(size)\<close> and its inverse.
\<close>

definition dft :: "'a::field \<Rightarrow> 'a list \<Rightarrow> 'a list" where
  "dft w cs = map (\<lambda>j. \<Sum>i\<leftarrow>[0..<length cs]. cs ! i * w ^ (i * j)) [0..<length cs]"

definition idft :: "'a::field \<Rightarrow> 'a list \<Rightarrow> 'a list" where
  "idft w vs =
     map (\<lambda>i. (\<Sum>j\<leftarrow>[0..<length vs]. vs ! j * inverse w ^ (i * j)) / of_nat (length vs))
       [0..<length vs]"

definition fft :: "('a::field, 'g, 't) prover \<Rightarrow> 'a polynomial \<Rightarrow> 'a polynomial res" where
  "fft self p =
     (if basis p \<noteq> MONOMIAL then Inl BasisError
      else Inr (Polynomial (dft (root_of_unity self (length (poly_values p))) (poly_values p))
                  LAGRANGE))"

definition ifft :: "('a::field, 'g, 't) prover \<Rightarrow> 'a polynomial \<Rightarrow> 'a polynomial res" where
  "ifft self p =
     (if basis p \<noteq> LAGRANGE then Inl BasisError
      else if (of_nat (length (poly_values p)) :: 'a) = 0 then Inl ArithmeticError
      else Inr (Polynomial (idft (root_of_unity self (length (poly_values p))) (poly_values p))
                  MONOMIAL))"

text \<open>\<open>shift(k)\<close>, only for \<open>LAGRANGE\<close>: cyclic left rotation of the values by \<open>k\<close>.\<close>

definition shift :: "'a polynomial \<Rightarrow> nat \<Rightarrow> 'a polynomial res" where
  "shift p k =
     (if basis p \<noteq> LAGRANGE then Inl BasisError
      else Inr (Polynomial (rotate k (poly_values p)) LAGRANGE))"

text \<open>
  \<open>to_coset_extended_lagrange(h)\<close>: iFFT to monomial form, scale the coefficients by
  \<open>h^i\<close>, zero-pad to \<open>4n\<close>, FFT. The tag of the result is the prover's \<open>coset_basis\<close>.
\<close>

definition to_coset_extended_lagrange ::
  "('a::field, 'g, 't) prover \<Rightarrow> 'a polynomial \<Rightarrow> 'a \<Rightarrow> 'a polynomial res" where
  "to_coset_extended_lagrange self p h =
     bind (ifft self p) (\<lambda>c.
     let n = length (poly_values c);
         scaled = map (\<lambda>i. poly_values c ! i * h ^ i) [0..<n] @ replicate (3 * n) 0
     in Inr (Polynomial (dft (root_of_unity self (4 * n)) scaled) (coset_basis self)))"

text \<open>
  \<open>coset_extended_lagrange_to_coeffs(h)\<close>: the inverse of the above, a monomial
  polynomial of the same length: iFFT, then scale the coefficients by \<open>(1/h)^i\<close>.
\<close>

definition coset_extended_lagrange_to_coeffs ::
  "('a::field, 'g, 't) prover \<Rightarrow> 'a polynomial \<Rightarrow> 'a \<Rightarrow> 'a polynomial res" where
  "coset_extended_lagrange_to_coeffs self p h =
     (if basis p \<noteq> coset_basis self then Inl BasisError
      else if (of_nat (length (poly_values p)) :: 'a) = 0 \<or> h = 0 then Inl ArithmeticError
      else let m = length (poly_values p);
               c = idft (root_of_unity self m) (poly_values p)
           in Inr (Polynomial (map (\<lambda>i. c ! i * (1 / h) ^ i) [0..<m]) MONOMIAL))"

text \<open>
  \<open>barycentric_eval(z)\<close>, only for \<open>LAGRANGE\<close>: the value at index \<open>i\<close> when \<open>z\<close> is
  the root of unity \<open>w^i\<close>, and otherwise
  \<open>(z^n - 1) / n * sum_i (v_i * w^i / (z - w^i))\<close>.
\<close>

definition barycentric_eval ::
  "('a::field, 'g, 't) prover \<Rightarrow> 'a polynomial \<Rightarrow> 'a \<Rightarrow> 'a res" where
  "barycentric_eval self p z =
     (let n = length (poly_values p); w = root_of_unity self n
      in if basis p \<noteq> LAGRANGE then Inl BasisError
         else case filter (\<lambda>i. w ^ i = z) [0..<n] of
                i # _ \<Rightarrow> Inr (poly_values p ! i)
              | [] \<Rightarrow>
                 if (of_nat n :: 'a) = 0 then Inl ArithmeticError
                 else Inr ((z ^ n - 1) / of_nat n *
                        (\<Sum>i\<leftarrow>[0..<n]. poly_values p ! i * w ^ i / (z - w ^ i))))"

subsection \<open>\<open>fft_expand\<close> and \<open>expanded_evals_to_coeffs\<close> (lines 502-506)\<close>

definition fft_expand ::
  "('a::field, 'g, 't) prover \<Rightarrow> ('a, 'g) store \<Rightarrow> 'a polynomial \<Rightarrow> 'a polynomial res" where
  "fft_expand self st x =
     bind (attr_scalar st ''fft_cofactor'') (\<lambda>h. to_coset_extended_lagrange self x h)"

definition expanded_evals_to_coeffs ::
  "('a::field, 'g, 't) prover \<Rightarrow> ('a, 'g) store \<Rightarrow> 'a polynomial \<Rightarrow> 'a polynomial res" where
  "expanded_evals_to_coeffs self st x =
     bind (attr_scalar st ''fft_cofactor'') (\<lambda>h. coset_extended_lagrange_to_coeffs self x h)"

definition poly_of :: "('a, 'g) pyval \<Rightarrow> 'a polynomial res" where
  "poly_of v = (case v of Po p \<Rightarrow> Inr p | _ \<Rightarrow> Inl AttributeError)"

subsection \<open>\<open>rlc\<close> (line 508)\<close>

definition rlc ::
  "('a::field, 'g) store \<Rightarrow> ('a, 'g) pyval res \<Rightarrow> ('a, 'g) pyval res \<Rightarrow> ('a, 'g) pyval res" where
  "rlc st term_1 term_2 =
     py_add (py_add term_1 (py_mul term_2 (attr st ''beta''))) (attr st ''gamma'')"

subsection \<open>Round 1 (lines 86-133)\<close>

text \<open>The loop of lines 102-105, from index \<open>i\<close> on.\<close>

fun assign_wires ::
  "witness \<Rightarrow> nat \<Rightarrow> gate_wires list \<Rightarrow> 'a::field list \<times> 'a list \<times> 'a list
   \<Rightarrow> ('a list \<times> 'a list \<times> 'a list) res" where
  "assign_wires witness i [] ABC = Inr ABC"
| "assign_wires witness i (gates # rest) (A_values, B_values, C_values) =
     bind (lookup witness (wire_L gates)) (\<lambda>l.
     if length A_values \<le> i then Inl IndexError else
     bind (lookup witness (wire_R gates)) (\<lambda>r.
     if length B_values \<le> i then Inl IndexError else
     bind (lookup witness (wire_O gates)) (\<lambda>out.
     if length C_values \<le> i then Inl IndexError else
     assign_wires witness (Suc i) rest
       (A_values[i := of_int l], B_values[i := of_int r], C_values[i := of_int out]))))"

definition round_1 ::
  "('a::field, 'g, 't) prover \<Rightarrow> witness \<Rightarrow> ('a, 'g) store
   \<Rightarrow> ('g message1 \<times> witness \<times> ('a, 'g) store) res" where
  "round_1 self witness0 st0 =
     (let witness = (if witness0 None = None then witness0(None \<mapsto> 0) else witness0);
          zeros = replicate (group_order self) 0
      in bind (assign_wires witness 0 (wires self) (zeros, zeros, zeros)) (\<lambda>(A_values, B_values, C_values).
         let A = Polynomial A_values LAGRANGE;
             B = Polynomial B_values LAGRANGE;
             C = Polynomial C_values LAGRANGE;
             st = st0(''A'' \<mapsto> Po A, ''B'' \<mapsto> Po B, ''C'' \<mapsto> Po C);
             a_1 = commit self A;
             b_1 = commit self B;
             c_1 = commit self C
         in bind (py_add (py_add (py_add (py_add (py_add
                    (py_mul (Inr (Po A)) (Inr (Po (QL self))))
                    (py_mul (Inr (Po B)) (Inr (Po (QR self)))))
                    (py_mul (py_mul (Inr (Po A)) (Inr (Po B))) (Inr (Po (QM self)))))
                    (py_mul (Inr (Po C)) (Inr (Po (QO self)))))
                    (attr st ''PI''))
                    (Inr (Po (QC self)))) (\<lambda>lhs.
            bind (assert 120 (lhs = Po (Polynomial (replicate (group_order self) 0) LAGRANGE))) (\<lambda>_.
            Inr (Message1 a_1 b_1 c_1, witness, st)))))"

subsection \<open>Round 2 (lines 135-182)\<close>

text \<open>
  The two products of \<open>rlc\<close> terms at gate \<open>i\<close>: over the identity permutation (lines
  150-152 and 163-165) and over \<open>S1, S2, S3\<close> (lines 153-155 and 167-169).
\<close>

definition numerator ::
  "('a::field, 'g, 't) prover \<Rightarrow> ('a, 'g) store \<Rightarrow> 'a list \<Rightarrow> nat \<Rightarrow> ('a, 'g) pyval res" where
  "numerator self st rs i =
     py_mul (py_mul
       (bind (attr_values st ''A'') (\<lambda>A. bind (index A i) (\<lambda>a. bind (index rs i) (\<lambda>r.
          rlc st (Inr (Sc a)) (Inr (Sc r))))))
       (bind (attr_values st ''B'') (\<lambda>B. bind (index B i) (\<lambda>b. bind (index rs i) (\<lambda>r.
          rlc st (Inr (Sc b)) (Inr (Sc (2 * r))))))))
       (bind (attr_values st ''C'') (\<lambda>C. bind (index C i) (\<lambda>c. bind (index rs i) (\<lambda>r.
          rlc st (Inr (Sc c)) (Inr (Sc (3 * r)))))))"

definition denominator ::
  "('a::field, 'g, 't) prover \<Rightarrow> ('a, 'g) store \<Rightarrow> nat \<Rightarrow> ('a, 'g) pyval res" where
  "denominator self st i =
     py_mul (py_mul
       (bind (attr_values st ''A'') (\<lambda>A. bind (index A i) (\<lambda>a.
          bind (index (poly_values (S1 self)) i) (\<lambda>s. rlc st (Inr (Sc a)) (Inr (Sc s))))))
       (bind (attr_values st ''B'') (\<lambda>B. bind (index B i) (\<lambda>b.
          bind (index (poly_values (S2 self)) i) (\<lambda>s. rlc st (Inr (Sc b)) (Inr (Sc s)))))))
       (bind (attr_values st ''C'') (\<lambda>C. bind (index C i) (\<lambda>c.
          bind (index (poly_values (S3 self)) i) (\<lambda>s. rlc st (Inr (Sc c)) (Inr (Sc s))))))"

definition scalar_of :: "('a, 'g) pyval \<Rightarrow> 'a res" where
  "scalar_of v = (case v of Sc x \<Rightarrow> Inr x | _ \<Rightarrow> Inl TypeError)"

text \<open>The loop of lines 149-155 over the remaining indices.\<close>

fun accumulate ::
  "('a::field, 'g, 't) prover \<Rightarrow> ('a, 'g) store \<Rightarrow> 'a list \<Rightarrow> nat list \<Rightarrow> 'a list
   \<Rightarrow> 'a list res" where
  "accumulate self st rs [] Z_values = Inr Z_values"
| "accumulate self st rs (i # rest) Z_values =
     bind (index Z_values i) (\<lambda>prev.
     bind (py_mul (Inr (Sc prev)) (py_div (numerator self st rs i) (denominator self st i))) (\<lambda>v.
     bind (scalar_of v) (\<lambda>z.
     accumulate self st rs rest (Z_values @ [z]))))"

text \<open>The loop of lines 161-172 over the remaining indices.\<close>

fun check_accumulator ::
  "('a::field, 'g, 't) prover \<Rightarrow> ('a, 'g) store \<Rightarrow> 'a list \<Rightarrow> 'a list \<Rightarrow> nat list \<Rightarrow> unit res" where
  "check_accumulator self st rs Z_values [] = Inr ()"
| "check_accumulator self st rs Z_values (i # rest) =
     bind (py_sub
        (py_mul (numerator self st rs i) (bind (index Z_values i) (\<lambda>z. Inr (Sc z))))
        (py_mul (denominator self st i)
           (bind (index Z_values ((i + 1) mod group_order self)) (\<lambda>z. Inr (Sc z))))) (\<lambda>v.
     bind (assert 162 (v = Sc 0)) (\<lambda>_.
     check_accumulator self st rs Z_values rest))"

definition round_2 ::
  "('a::field, 'g, 't) prover \<Rightarrow> ('a, 'g) store \<Rightarrow> ('g message2 \<times> ('a, 'g) store) res" where
  "round_2 self st0 =
     (let rs = roots_of_unity (root_of_unity self (group_order self)) (group_order self)
      in bind (accumulate self st0 rs [0..<group_order self] [1]) (\<lambda>Z_all.
         bind (assert 158 (last Z_all = 1)) (\<lambda>_.
         let Z_values = butlast Z_all
         in bind (check_accumulator self st0 rs Z_values [0..<group_order self]) (\<lambda>_.
            let Z = Polynomial Z_values LAGRANGE;
                st = st0(''Z'' \<mapsto> Po Z);
                z_1 = commit self Z
            in Inr (Message2 z_1, st)))))"

subsection \<open>Round 3 (lines 184-321)\<close>

definition as_scalar :: "'a res \<Rightarrow> ('a, 'g) pyval res" where
  "as_scalar r = bind r (\<lambda>x. Inr (Sc x))"

text \<open>\<open>x ** k\<close> for a scalar \<open>x\<close> and a Python integer \<open>k \<ge> 0\<close>.\<close>

definition py_pow :: "('a::field, 'g) pyval res \<Rightarrow> nat \<Rightarrow> ('a, 'g) pyval res" where
  "py_pow x k = bind x (\<lambda>v. case v of Sc a \<Rightarrow> Inr (Sc (a ^ k)) | _ \<Rightarrow> Inl TypeError)"

text \<open>The expression of lines 251-258.\<close>

definition round_3_gates :: "('a::field, 'g) store \<Rightarrow> ('a, 'g) pyval res" where
  "round_3_gates st =
     py_div
       (py_add (py_add (py_add (py_add (py_add
          (py_mul (attr st ''A_expanded'') (attr st ''QL_expanded''))
          (py_mul (attr st ''B_expanded'') (attr st ''QR_expanded'')))
          (py_mul (py_mul (attr st ''A_expanded'') (attr st ''B_expanded'')) (attr st ''QM_expanded'')))
          (py_mul (attr st ''C_expanded'') (attr st ''QO_expanded'')))
          (attr st ''PI_expanded''))
          (attr st ''QC_expanded''))
       (attr st ''Z_H'')"

text \<open>The expression of lines 266-278.\<close>

definition round_3_permutation :: "('a::field, 'g) store \<Rightarrow> ('a, 'g) pyval res" where
  "round_3_permutation st =
     py_div
       (py_add
         (py_sub
           (py_mul
             (py_mul (py_mul (py_mul
                (rlc st (attr st ''A_expanded'')
                   (py_mul (attr st ''roots_of_unity_polynomial'') (attr st ''fft_cofactor'')))
                (rlc st (attr st ''B_expanded'')
                   (py_mul (attr st ''roots_of_unity_polynomial'')
                      (py_mul (Inr (Sc 2)) (attr st ''fft_cofactor'')))))
                (rlc st (attr st ''C_expanded'')
                   (py_mul (attr st ''roots_of_unity_polynomial'')
                      (py_mul (Inr (Sc 3)) (attr st ''fft_cofactor'')))))
                (attr st ''Z_expanded''))
             (attr st ''alpha''))
           (py_mul (py_mul (py_mul (py_mul
              (rlc st (attr st ''A_expanded'') (attr st ''S1_expanded''))
              (rlc st (attr st ''B_expanded'') (attr st ''S2_expanded'')))
              (rlc st (attr st ''C_expanded'') (attr st ''S3_expanded'')))
              (attr st ''Z_W_expanded''))
              (attr st ''alpha'')))
         (py_mul
           (py_mul (py_sub (attr st ''Z_expanded'') (Inr (Sc 1))) (attr st ''L0_expanded''))
           (py_mul (attr st ''alpha'') (attr st ''alpha''))))
       (attr st ''Z_H'')"

text \<open>The left-hand side of the check of lines 305-309.\<close>

definition round_3_split_check ::
  "('a::field, 'g, 't) prover \<Rightarrow> ('a, 'g) store \<Rightarrow> ('a, 'g) pyval res" where
  "round_3_split_check self st =
     py_add (py_add
       (as_scalar (bind (attr_poly st ''T1'') (\<lambda>T. bind (attr_scalar st ''fft_cofactor'') (\<lambda>h.
          barycentric_eval self T h))))
       (py_mul
          (as_scalar (bind (attr_poly st ''T2'') (\<lambda>T. bind (attr_scalar st ''fft_cofactor'') (\<lambda>h.
             barycentric_eval self T h))))
          (py_pow (attr st ''fft_cofactor'') (group_order self))))
       (py_mul
          (as_scalar (bind (attr_poly st ''T3'') (\<lambda>T. bind (attr_scalar st ''fft_cofactor'') (\<lambda>h.
             barycentric_eval self T h))))
          (py_pow (attr st ''fft_cofactor'') (group_order self * 2)))"

text \<open>
  Lines 189-244: the expansions into the coset extended Lagrange basis, \<open>Z_H\<close> and \<open>L0\<close>.
\<close>

definition round_3_expand ::
  "('a::field, 'g, 't) prover \<Rightarrow> ('a, 'g) store \<Rightarrow> ('a, 'g) store res" where
  "round_3_expand self st0 =
     (let n = group_order self;
          rs = roots_of_unity (root_of_unity self (n * 4)) (n * 4);
          st1 = st0(''roots_of_unity'' \<mapsto> Li rs)
      in bind (attr_poly st1 ''A'') (\<lambda>A. bind (attr_poly st1 ''B'') (\<lambda>B.
         bind (attr_poly st1 ''C'') (\<lambda>C.
         bind (fft_expand self st1 A) (\<lambda>Ae. bind (fft_expand self st1 B) (\<lambda>Be.
         bind (fft_expand self st1 C) (\<lambda>Ce.
         let st2 = st1(''A_expanded'' \<mapsto> Po Ae, ''B_expanded'' \<mapsto> Po Be, ''C_expanded'' \<mapsto> Po Ce)
         in bind (attr_poly st2 ''PI'') (\<lambda>PI. bind (fft_expand self st2 PI) (\<lambda>PIe.
         let st3 = st2(''PI_expanded'' \<mapsto> Po PIe)
         in bind (fft_expand self st3 (QL self)) (\<lambda>QLe. bind (fft_expand self st3 (QR self)) (\<lambda>QRe.
         bind (fft_expand self st3 (QM self)) (\<lambda>QMe. bind (fft_expand self st3 (QO self)) (\<lambda>QOe.
         bind (fft_expand self st3 (QC self)) (\<lambda>QCe.
         let st4 = st3(''QL_expanded'' \<mapsto> Po QLe, ''QR_expanded'' \<mapsto> Po QRe,
                       ''QM_expanded'' \<mapsto> Po QMe, ''QO_expanded'' \<mapsto> Po QOe,
                       ''QC_expanded'' \<mapsto> Po QCe)
         in bind (attr_poly st4 ''Z'') (\<lambda>Z. bind (fft_expand self st4 Z) (\<lambda>Ze.
         let st5 = st4(''Z_expanded'' \<mapsto> Po Ze)
         in bind (attr_poly st5 ''Z'') (\<lambda>Z. bind (shift Z 1) (\<lambda>Zs.
         bind (fft_expand self st5 Zs) (\<lambda>ZWe.
         let st6 = st5(''Z_W_expanded'' \<mapsto> Po ZWe)
         in bind (fft_expand self st6 (S1 self)) (\<lambda>S1e. bind (fft_expand self st6 (S2 self)) (\<lambda>S2e.
         bind (fft_expand self st6 (S3 self)) (\<lambda>S3e.
         let st7 = st6(''S1_expanded'' \<mapsto> Po S1e, ''S2_expanded'' \<mapsto> Po S2e,
                       ''S3_expanded'' \<mapsto> Po S3e)
         in bind (attr_scalar st7 ''fft_cofactor'') (\<lambda>h.
         let st8 = st7(''Z_H'' \<mapsto> Po (Polynomial (Z_H_values rs h n) LAGRANGE));
             L0 = Polynomial (1 # replicate (n - 1) 0) LAGRANGE;
             st9 = st8(''L0'' \<mapsto> Po L0)
         in bind (fft_expand self st9 L0) (\<lambda>L0e.
         Inr (st9(''L0_expanded'' \<mapsto> Po L0e))))))))))))))))))))))))))"

text \<open>
  Lines 251-321: the quotient, its coefficients, the split into \<open>T1, T2, T3\<close> and the
  commitments.
\<close>

definition round_3_quotient ::
  "('a::field, 'g, 't) prover \<Rightarrow> ('a, 'g) store \<Rightarrow> ('g message3 \<times> ('a, 'g) store) res" where
  "round_3_quotient self st0 =
     (let n = group_order self
      in bind (round_3_gates st0) (\<lambda>gates.
         let st1 = st0(''gates'' \<mapsto> gates)
         in bind (attr st1 ''roots_of_unity'') (\<lambda>rs.
         bind (case rs of Li r \<Rightarrow> Inr r | _ \<Rightarrow> Inl TypeError) (\<lambda>rs.
         let st2 = st1(''roots_of_unity_polynomial'' \<mapsto> Po (Polynomial rs LAGRANGE))
         in bind (round_3_permutation st2) (\<lambda>pgp.
         let st3 = st2(''permutation_grand_product'' \<mapsto> pgp)
         in bind (py_add (attr st3 ''gates'') (attr st3 ''permutation_grand_product'')) (\<lambda>quot.
         let st4 = st3(''QUOT_expanded'' \<mapsto> quot)
         in bind (poly_of quot) (\<lambda>q. bind (expanded_evals_to_coeffs self st4 q) (\<lambda>qc.
         let st5 = st4(''QUOT_coefficients'' \<mapsto> Po qc);
             coeffs = poly_values qc
         in bind (assert 291
                   ((if n = 0 then coeffs else drop (length coeffs - n) coeffs) = replicate n 0)) (\<lambda>_.
         bind (fft self (Polynomial (take n coeffs) MONOMIAL)) (\<lambda>T1.
         let st6 = st5(''T1'' \<mapsto> Po T1)
         in bind (fft self (Polynomial (take n (drop n coeffs)) MONOMIAL)) (\<lambda>T2.
         let st7 = st6(''T2'' \<mapsto> Po T2)
         in bind (fft self (Polynomial (take n (drop (2 * n) coeffs)) MONOMIAL)) (\<lambda>T3.
         let st8 = st7(''T3'' \<mapsto> Po T3)
         in bind (round_3_split_check self st8) (\<lambda>lhs.
         bind (index (poly_values q) 0) (\<lambda>q0.
         bind (assert 305 (lhs = Sc q0)) (\<lambda>_.
         Inr (Message3 (commit self T1) (commit self T2) (commit self T3), st8))))))))))))))))"

definition round_3 ::
  "('a::field, 'g, 't) prover \<Rightarrow> ('a, 'g) store \<Rightarrow> ('g message3 \<times> ('a, 'g) store) res" where
  "round_3 self st = bind (round_3_expand self st) (round_3_quotient self)"

subsection \<open>Round 4 (lines 323-348)\<close>

definition round_4 ::
  "('a::field, 'g, 't) prover \<Rightarrow> ('a, 'g) store \<Rightarrow> ('a message4 \<times> ('a, 'g) store) res" where
  "round_4 self st0 =
     bind (attr_poly st0 ''A'') (\<lambda>A. bind (attr_scalar st0 ''zeta'') (\<lambda>zeta.
     bind (barycentric_eval self A zeta) (\<lambda>a_eval.
     let st1 = st0(''a_eval'' \<mapsto> Sc a_eval)
     in bind (attr_poly st1 ''B'') (\<lambda>B. bind (attr_scalar st1 ''zeta'') (\<lambda>zeta.
     bind (barycentric_eval self B zeta) (\<lambda>b_eval.
     let st2 = st1(''b_eval'' \<mapsto> Sc b_eval)
     in bind (attr_poly st2 ''C'') (\<lambda>C. bind (attr_scalar st2 ''zeta'') (\<lambda>zeta.
     bind (barycentric_eval self C zeta) (\<lambda>c_eval.
     let st3 = st2(''c_eval'' \<mapsto> Sc c_eval)
     in bind (attr_scalar st3 ''zeta'') (\<lambda>zeta.
     bind (barycentric_eval self (S1 self) zeta) (\<lambda>s1_eval.
     let st4 = st3(''s1_eval'' \<mapsto> Sc s1_eval)
     in bind (attr_scalar st4 ''zeta'') (\<lambda>zeta.
     bind (barycentric_eval self (S2 self) zeta) (\<lambda>s2_eval.
     let st5 = st4(''s2_eval'' \<mapsto> Sc s2_eval);
         w = root_of_unity self (group_order self)
     in bind (attr_poly st5 ''Z'') (\<lambda>Z. bind (attr_scalar st5 ''zeta'') (\<lambda>zeta.
     bind (barycentric_eval self Z (zeta * w)) (\<lambda>z_shifted_eval.
     let st6 = st5(''z_shifted_eval'' \<mapsto> Sc z_shifted_eval)
     in Inr (Message4 a_eval b_eval c_eval s1_eval s2_eval z_shifted_eval, st6)))))))))))))))))"

subsection \<open>Round 5 (lines 350-500)\<close>

text \<open>The expression of lines 386-393.\<close>

definition round_5_gates :: "('a::field, 'g) store \<Rightarrow> ('a, 'g) pyval res" where
  "round_5_gates st =
     py_add (py_add (py_add (py_add (py_add
       (py_mul (attr st ''QL_expanded'') (attr st ''a_eval''))
       (py_mul (attr st ''QR_expanded'') (attr st ''b_eval'')))
       (py_mul (py_mul (attr st ''QM_expanded'') (attr st ''a_eval'')) (attr st ''b_eval'')))
       (py_mul (attr st ''QO_expanded'') (attr st ''c_eval'')))
       (attr st ''PI_eval''))
       (attr st ''QC_expanded'')"

text \<open>
  The expression of lines 396-407; \<open>c_eval\<close> is the local constant polynomial of line
  369, not the attribute \<open>self.c_eval\<close>.
\<close>

definition round_5_permutation ::
  "('a::field, 'g) store \<Rightarrow> 'a polynomial \<Rightarrow> ('a, 'g) pyval res" where
  "round_5_permutation st c_eval_poly =
     py_sub
       (py_mul (attr st ''Z_expanded'')
          (py_mul (py_mul
             (rlc st (attr st ''a_eval'') (attr st ''zeta''))
             (rlc st (attr st ''b_eval'') (py_mul (Inr (Sc 2)) (attr st ''zeta''))))
             (rlc st (attr st ''c_eval'') (py_mul (Inr (Sc 3)) (attr st ''zeta'')))))
       (py_mul
          (py_mul (py_mul
             (rlc st (Inr (Po c_eval_poly)) (attr st ''S3_expanded''))
             (rlc st (attr st ''a_eval'') (attr st ''s1_eval'')))
             (rlc st (attr st ''b_eval'') (attr st ''s2_eval'')))
          (attr st ''z_shifted_eval''))"

text \<open>The expression of lines 413-417.\<close>

definition round_5_T_argument ::
  "('a::field, 'g, 't) prover \<Rightarrow> ('a, 'g) store \<Rightarrow> ('a, 'g) pyval res" where
  "round_5_T_argument self st =
     py_add (py_add
       (attr st ''T1_expanded'')
       (py_mul (attr st ''T2_expanded'') (py_pow (attr st ''zeta'') (group_order self))))
       (py_mul (attr st ''T3_expanded'') (py_pow (attr st ''zeta'') (2 * group_order self)))"

text \<open>The expression of lines 420-426.\<close>

definition round_5_R_argument :: "('a::field, 'g) store \<Rightarrow> ('a, 'g) pyval res" where
  "round_5_R_argument st =
     py_sub
       (py_add (py_add
          (attr st ''gates'')
          (py_mul (attr st ''permutation_grand_product'') (attr st ''alpha'')))
          (py_mul (attr st ''permutation'') (py_pow (attr st ''alpha'') 2)))
       (py_mul (attr st ''T_argument'') (attr st ''Z_H_eval''))"

text \<open>The expression of lines 457-464.\<close>

definition round_5_W_Z_argument :: "('a::field, 'g) store \<Rightarrow> ('a, 'g) pyval res" where
  "round_5_W_Z_argument st =
     py_div
       (py_add (py_add (py_add (py_add (py_add
          (attr st ''R_argument'')
          (py_mul (py_sub (attr st ''A_expanded'') (attr st ''a_eval'')) (attr st ''v'')))
          (py_mul (py_sub (attr st ''B_expanded'') (attr st ''b_eval'')) (py_pow (attr st ''v'') 2)))
          (py_mul (py_sub (attr st ''C_expanded'') (attr st ''c_eval'')) (py_pow (attr st ''v'') 3)))
          (py_mul (py_sub (attr st ''S1_expanded'') (attr st ''s1_eval'')) (py_pow (attr st ''v'') 4)))
          (py_mul (py_sub (attr st ''S2_expanded'') (attr st ''s2_eval'')) (py_pow (attr st ''v'') 5)))
       (py_sub (py_mul (attr st ''quarter_roots'') (attr st ''fft_cofactor'')) (attr st ''zeta''))"

text \<open>The expression of lines 481-484.\<close>

definition round_5_W_zw_argument :: "('a::field, 'g) store \<Rightarrow> ('a, 'g) pyval res" where
  "round_5_W_zw_argument st =
     py_div
       (py_sub (attr st ''Z_expanded'') (attr st ''z_shifted_eval''))
       (py_sub (py_mul (attr st ''quarter_roots'') (attr st ''fft_cofactor''))
          (py_mul (attr st ''root_of_unity'') (attr st ''zeta'')))"

text \<open>The three checks on coefficient lists (lines 430, 467 and 471, 487 and 491).\<close>

definition top_zero :: "('a::field, 'g, 't) prover \<Rightarrow> 'a list \<Rightarrow> bool" where
  "top_zero self coeffs \<longleftrightarrow> drop (group_order self) coeffs = replicate (group_order self * 3) 0"

definition round_5 ::
  "('a::field, 'g, 't) prover \<Rightarrow> ('a, 'g) store \<Rightarrow> ('g message5 \<times> ('a, 'g) store) res" where
  "round_5 self st0 =
     (let n = group_order self
      in bind (attr_poly st0 ''L0'') (\<lambda>L0. bind (attr_scalar st0 ''zeta'') (\<lambda>zeta.
         bind (barycentric_eval self L0 zeta) (\<lambda>L0_eval.
         let st1 = st0(''L0_eval'' \<mapsto> Sc L0_eval)
         in bind (py_sub (py_pow (attr st1 ''zeta'') n) (Inr (Sc 1))) (\<lambda>Z_H_eval.
         let st2 = st1(''Z_H_eval'' \<mapsto> Z_H_eval)
         in bind (attr_poly st2 ''T1'') (\<lambda>T1. bind (attr_poly st2 ''T2'') (\<lambda>T2.
         bind (attr_poly st2 ''T3'') (\<lambda>T3.
         bind (fft_expand self st2 T1) (\<lambda>T1e. bind (fft_expand self st2 T2) (\<lambda>T2e.
         bind (fft_expand self st2 T3) (\<lambda>T3e.
         let st3 = st2(''T1_expanded'' \<mapsto> Po T1e, ''T2_expanded'' \<mapsto> Po T2e,
                       ''T3_expanded'' \<mapsto> Po T3e)
         in bind (attr_poly st3 ''PI'') (\<lambda>PI. bind (attr_scalar st3 ''zeta'') (\<lambda>zeta.
         bind (barycentric_eval self PI zeta) (\<lambda>PI_eval.
         let st4 = st3(''PI_eval'' \<mapsto> Sc PI_eval)
         in bind (attr_scalar st4 ''c_eval'') (\<lambda>c.
         let c_eval_poly = Polynomial (replicate (n * 4) c) LAGRANGE
         in bind (round_5_gates st4) (\<lambda>gates.
         let st5 = st4(''gates'' \<mapsto> gates)
         in bind (round_5_permutation st5 c_eval_poly) (\<lambda>pgp.
         let st6 = st5(''permutation_grand_product'' \<mapsto> pgp)
         in bind (py_mul (py_sub (attr st6 ''Z_expanded'') (Inr (Sc 1))) (attr st6 ''L0_eval'')) (\<lambda>perm.
         let st7 = st6(''permutation'' \<mapsto> perm)
         in bind (round_5_T_argument self st7) (\<lambda>T_argument.
         let st8 = st7(''T_argument'' \<mapsto> T_argument)
         in bind (round_5_R_argument st8) (\<lambda>R_argument.
         let st9 = st8(''R_argument'' \<mapsto> R_argument)
         in bind (poly_of R_argument) (\<lambda>Ra. bind (expanded_evals_to_coeffs self st9 Ra) (\<lambda>Rc.
         let R_coeffs = poly_values Rc
         in bind (assert 430 (top_zero self R_coeffs)) (\<lambda>_.
         bind (fft self (Polynomial (take n R_coeffs) MONOMIAL)) (\<lambda>R.
         let st10 = st9(''R'' \<mapsto> Po R, ''R_commit'' \<mapsto> Pt (commit self R))
         in bind (attr_scalar st10 ''zeta'') (\<lambda>zeta.
         bind (barycentric_eval self R zeta) (\<lambda>R_zeta.
         bind (assert 437 (R_zeta = 0)) (\<lambda>_.
         bind (attr st10 ''roots_of_unity'') (\<lambda>rs.
         bind (case rs of Li r \<Rightarrow> Inr r | _ \<Rightarrow> Inl TypeError) (\<lambda>rs.
         let st11 = st10(''quarter_roots'' \<mapsto> Po (Polynomial rs LAGRANGE),
                         ''root_of_unity'' \<mapsto> Sc (root_of_unity self n))
         in bind (round_5_W_Z_argument st11) (\<lambda>W_Z_argument.
         let st12 = st11(''W_Z_argument'' \<mapsto> W_Z_argument)
         in bind (poly_of W_Z_argument) (\<lambda>Wa. bind (expanded_evals_to_coeffs self st12 Wa) (\<lambda>Wc.
         let W_z_coeffs = poly_values Wc
         in bind (assert 467 (top_zero self W_z_coeffs)) (\<lambda>_.
         bind (fft self (Polynomial (take n W_z_coeffs) MONOMIAL)) (\<lambda>W_z.
         let st13 = st12(''W_z'' \<mapsto> Po W_z)
         in bind (assert 471 (top_zero self W_z_coeffs)) (\<lambda>_.
         let st14 = st13(''W_z_1'' \<mapsto> Pt (commit self W_z))
         in bind (round_5_W_zw_argument st14) (\<lambda>W_zw_argument.
         let st15 = st14(''W_zw_argument'' \<mapsto> W_zw_argument)
         in bind (poly_of W_zw_argument) (\<lambda>Wa'. bind (expanded_evals_to_coeffs self st15 Wa') (\<lambda>Wc'.
         let W_zw_coeffs = poly_values Wc'
         in bind (assert 487 (top_zero self W_zw_coeffs)) (\<lambda>_.
         bind (fft self (Polynomial (take n W_zw_coeffs) MONOMIAL)) (\<lambda>W_zw.
         let st16 = st15(''W_zw'' \<mapsto> Po W_zw)
         in bind (assert 491 (top_zero self W_zw_coeffs)) (\<lambda>_.
         let st17 = st16(''W_zw_1'' \<mapsto> Pt (commit self W_zw))
         in Inr (Message5 (commit self W_z) (commit self W_zw), st17))))))))))))))))))))))))))))))))))))))))))"

subsection \<open>\<open>prove\<close> (lines 51-84) and \<open>flatten\<close> (lines 18-35)\<close>

text \<open>The list comprehension of line 59.\<close>

fun public_values :: "witness \<Rightarrow> string option list \<Rightarrow> 'a::field list res" where
  "public_values witness [] = Inr []"
| "public_values witness (v # vs) =
     bind (lookup witness v) (\<lambda>x.
     bind (public_values witness vs) (\<lambda>rest.
     Inr (of_int (- x) # rest)))"

definition prove ::
  "('a::field, 'g, 't) prover \<Rightarrow> witness \<Rightarrow> ('a, 'g) store
   \<Rightarrow> (('a, 'g) Proof \<times> witness \<times> ('a, 'g) store) res" where
  "prove self witness st0 =
     (let transcript0 = Transcript self ''plonk'';
          public_vars = get_public_assignments self
      in bind (public_values witness public_vars) (\<lambda>pub.
         let PI = Polynomial (pub @ replicate (group_order self - length public_vars) 0) LAGRANGE;
             st1 = st0(''PI'' \<mapsto> Po PI)
         in bind (round_1 self witness st1) (\<lambda>(m1, witness', st2).
         let c1 = transcript_round_1 self transcript0 m1;
             st3 = st2(''beta'' \<mapsto> Sc (fst (fst c1)), ''gamma'' \<mapsto> Sc (snd (fst c1)))
         in bind (round_2 self st3) (\<lambda>(m2, st4).
         let c2 = transcript_round_2 self (snd c1) m2;
             st5 = st4(''alpha'' \<mapsto> Sc (fst (fst c2)), ''fft_cofactor'' \<mapsto> Sc (snd (fst c2)))
         in bind (round_3 self st5) (\<lambda>(m3, st6).
         let c3 = transcript_round_3 self (snd c2) m3;
             st7 = st6(''zeta'' \<mapsto> Sc (fst c3))
         in bind (round_4 self st7) (\<lambda>(m4, st8).
         let c4 = transcript_round_4 self (snd c3) m4;
             st9 = st8(''v'' \<mapsto> Sc (fst c4))
         in bind (round_5 self st9) (\<lambda>(m5, st10).
         Inr (\<lparr>msg_1 = m1, msg_2 = m2, msg_3 = m3, msg_4 = m4, msg_5 = m5\<rparr>, witness', st10))))))))"

definition flatten :: "('a, 'g) Proof \<Rightarrow> (string \<times> ('a, 'g) pyval) list" where
  "flatten p =
     [(''a_1'', Pt (a_1 (msg_1 p))),
      (''b_1'', Pt (b_1 (msg_1 p))),
      (''c_1'', Pt (c_1 (msg_1 p))),
      (''z_1'', Pt (z_1 (msg_2 p))),
      (''t_lo_1'', Pt (t_lo_1 (msg_3 p))),
      (''t_mid_1'', Pt (t_mid_1 (msg_3 p))),
      (''t_hi_1'', Pt (t_hi_1 (msg_3 p))),
      (''a_eval'', Sc (a_eval (msg_4 p))),
      (''b_eval'', Sc (b_eval (msg_4 p))),
      (''c_eval'', Sc (c_eval (msg_4 p))),
      (''s1_eval'', Sc (s1_eval (msg_4 p))),
      (''s2_eval'', Sc (s2_eval (msg_4 p))),
      (''z_shifted_eval'', Sc (z_shifted_eval (msg_4 p))),
      (''W_z_1'', Pt (W_z_1 (msg_5 p))),
      (''W_zw_1'', Pt (W_zw_1 (msg_5 p)))]"

section \<open>Theorems\<close>

subsection \<open>C4: the vanishing polynomial on the coset\<close>

text \<open>
  C4, as stated: a coset offset \<open>h\<close> with \<open>h^n \<noteq> 1\<close> makes every entry of the
  evaluation-form \<open>Z_H\<close> of \<open>round_3\<close> nonzero. This fails: with \<open>n = 1\<close>, the primitive
  fourth root \<open>\<i>\<close> and \<open>h = \<i>\<close>, the offset satisfies \<open>h^n \<noteq> 1\<close> and the entry at
  index 3 is \<open>(\<i>^3 * \<i>)^1 - 1 = 0\<close>.
\<close>

theorem C4_counterexample:
  "primitive_root 4 \<i> \<and> \<i> ^ 1 \<noteq> (1::complex) \<and>
   Z_H_values (roots_of_unity \<i> (4 * 1)) \<i> 1 ! 3 = 0"
proof -
  have "{1..<4::nat} = {1, 2, 3}" by auto
  then have "primitive_root 4 \<i>"
    by (simp add: primitive_root_def power4_eq_xxxx power3_eq_cube complex_eq_iff)
  moreover have "Z_H_values (roots_of_unity \<i> (4 * 1)) \<i> 1 ! 3 = 0"
    by (simp add: Z_H_values_def roots_of_unity_def power3_eq_cube)
  moreover have "\<i> ^ 1 \<noteq> (1::complex)" by (simp add: complex_eq_iff)
  ultimately show ?thesis by blast
qed

text \<open>
  C4, amended: when \<open>mu^(4n) = 1\<close> and the coset offset satisfies \<open>h^(4n) \<noteq> 1\<close>, every
  entry \<open>(mu^i * h)^n - 1\<close> of the evaluation-form \<open>Z_H\<close> is nonzero.
\<close>

theorem C4_Z_H_nonzero:
  fixes mu h :: "'a::field"
  assumes mu: "mu ^ (4 * n) = 1" and h: "h ^ (4 * n) \<noteq> 1" and i: "i < 4 * n"
  shows "Z_H_values (roots_of_unity mu (4 * n)) h n ! i = (mu ^ i * h) ^ n - 1
       \<and> Z_H_values (roots_of_unity mu (4 * n)) h n ! i \<noteq> 0"
proof -
  have eq: "Z_H_values (roots_of_unity mu (4 * n)) h n ! i = (mu ^ i * h) ^ n - 1"
    using i by (simp add: Z_H_values_def roots_of_unity_def)
  have "(mu ^ i * h) ^ n \<noteq> 1"
  proof
    assume one: "(mu ^ i * h) ^ n = 1"
    have "h ^ (4 * n) = (mu ^ (4 * n)) ^ i * h ^ (4 * n)"
      by (simp add: mu)
    also have "\<dots> = ((mu ^ i * h) ^ n) ^ 4"
      by (simp add: power_mult_distrib power_mult [symmetric] ac_simps)
    also have "\<dots> = 1" by (simp add: one)
    finally show False using h by simp
  qed
  with eq show ?thesis by simp
qed

theorem C4_Z_H_nonzero_witness:
  "(\<i>::complex) ^ (4 * 1) = 1 \<and> (2::complex) ^ (4 * 1) \<noteq> 1 \<and> (3::nat) < 4 * 1 \<and>
   Z_H_values (roots_of_unity \<i> (4 * 1)) 2 1 ! 3 \<noteq> 0"
proof -
  have a: "(\<i>::complex) ^ (4 * 1) = 1" by (simp add: power4_eq_xxxx)
  have b: "(2::complex) ^ (4 * 1) \<noteq> 1" by simp
  have c: "(3::nat) < 4 * 1" by simp
  show ?thesis using a b c C4_Z_H_nonzero [OF a b c] by blast
qed

end
